theory Spec2Isabelle
  imports Complex_Main
begin

section \<open>Rule strategies of qlib/contrib/strategy/rule\_strategy.py\<close>

text \<open>
  The development embeds \<^verbatim>\<open>TWAPStrategy\<close>, \<^verbatim>\<open>SBBStrategy\<close> and the trend hook of
  \<^verbatim>\<open>SBBEMAStrategy\<close>. Python integers are \<open>int\<close> (\<open>div\<close> and \<open>mod\<close> on \<open>int\<close> are
  Python's \<^verbatim>\<open>//\<close> and \<^verbatim>\<open>%\<close>, both rounding towards minus infinity), timestamps are
  counted in seconds, dictionaries are maps, and every exception is a value of \<open>error\<close>.

  The module does not run as it stands. Line 121 is an \<^verbatim>\<open>if\<close> without its colon, so the
  file does not compile. With that colon supplied, the two \<^verbatim>\<open>reset\<close> methods read the global
  name \<^verbatim>\<open>SignalStrategy\<close> (lines 26, 70), both \<^verbatim>\<open>generate_order_list\<close> methods read
  \<^verbatim>\<open>TopkDropoutStrategy\<close> in their first statement (lines 30, 77), and lines 67 and 88 read
  a bare \<^verbatim>\<open>TREND_MID\<close>; the module binds none of these names, so each of these reads raises
  \<^verbatim>\<open>NameError\<close>. The constructors and the methods as the module has them are
  \<open>TWAPStrategy_reset\<close>, \<open>SBBStrategy_reset\<close> and the definitions whose names end in
  \<open>_shipped\<close>: each makes the name lookup of its first statement, and goes on only if
  the lookup succeeds, which in this module it never does.

  What follows the lookups is embedded under the names of the source, for a module that
  binds the three names as the code evidently means them: \<^verbatim>\<open>SignalStrategy\<close> and
  \<^verbatim>\<open>TopkDropoutStrategy\<close> stand for the base class of the strategy, \<^verbatim>\<open>TREND_MID\<close> for
  \<^verbatim>\<open>SBBStrategy.TREND_MID\<close>, and the dictionary \<^verbatim>\<open>trade_trend\<close> that line 67 writes is the
  empty dictionary that line 64 creates under the name \<^verbatim>\<open>trade_delay\<close>. The attributes
  that the base classes own (\<^verbatim>\<open>trade_dates\<close>, \<^verbatim>\<open>trade_len\<close>, \<^verbatim>\<open>trade_index\<close>,
  \<^verbatim>\<open>trade_order_list\<close>) are fields of the strategy record; the calendar that the base-class
  \<^verbatim>\<open>reset\<close> builds is a parameter of the constructors.
\<close>

subsection \<open>Data\<close>

type_synonym timestamp = int

datatype direction = SELL | BUY

record Order =
  stock_id :: string
  amount :: int
  start_time :: timestamp
  end_time :: timestamp
  direction :: direction
  factor :: real

text \<open>
  The exceptions of Python that the code can raise, and the two errors that the
  specification gives to the base classes, \<open>DuplicateKey\<close> and \<open>StepOutOfRange\<close>.
\<close>

datatype error =
  ZeroDivisionError | IndexError | KeyError | NotImplementedError | NameError
| DuplicateKey | StepOutOfRange

datatype trend = TREND_MID | TREND_SHORT | TREND_LONG

type_synonym trade_key = "string \<times> direction"

text \<open>The dictionary key \<^verbatim>\<open>(order.stock_id, order.direction)\<close>.\<close>

definition trade_key :: "Order \<Rightarrow> trade_key" where
  "trade_key order = (stock_id order, direction order)"

record strategy =
  trade_dates :: "timestamp list"
  trade_len :: int
  trade_index :: int
  trade_order_list :: "Order list"
  trade_amount :: "trade_key \<rightharpoonup> int"
  trade_trend :: "trade_key \<rightharpoonup> trend"

text \<open>
  The trend hook \<^verbatim>\<open>_pred_price_trend(stock_id, pred_start_time, pred_end_time)\<close>; the two
  times default to \<^verbatim>\<open>None\<close>.
\<close>

type_synonym predictor = "string \<Rightarrow> timestamp option \<Rightarrow> timestamp option \<Rightarrow> error + trend"

subsection \<open>Python primitives\<close>

text \<open>\<^verbatim>\<open>xs[i]\<close>: a negative index counts from the end, an index out of range raises.\<close>

definition py_index :: "'a list \<Rightarrow> int \<Rightarrow> error + 'a" where
  "py_index xs i =
     (if 0 \<le> i \<and> i < int (length xs) then Inr (xs ! nat i)
      else if i < 0 \<and> - int (length xs) \<le> i then Inr (xs ! nat (int (length xs) + i))
      else Inl IndexError)"

text \<open>\<^verbatim>\<open>a // b\<close> on integers.\<close>

definition py_floordiv :: "int \<Rightarrow> int \<Rightarrow> error + int" where
  "py_floordiv a b = (if b = 0 then Inl ZeroDivisionError else Inr (a div b))"

text \<open>\<^verbatim>\<open>d[k]\<close> on a dictionary.\<close>

definition py_getitem :: "('k \<rightharpoonup> 'v) \<Rightarrow> 'k \<Rightarrow> error + 'v" where
  "py_getitem d k = (case d k of None \<Rightarrow> Inl KeyError | Some v \<Rightarrow> Inr v)"

subsection \<open>The names of the module\<close>

text \<open>
  A function body finds a name that is not local to it in the globals of its module (or
  among the builtins, which hold none of the names looked up here). The module binds
  these names at its top level: the imports of lines 1--8 and the three class
  statements of lines 11, 46 and 127. Reading any other name raises \<^verbatim>\<open>NameError\<close>.
\<close>

definition module_globals :: "string list" where
  "module_globals =
     [''copy'', ''warnings'', ''np'', ''pd'', ''sample_feature'', ''RuleStrategy'',
      ''TradingEnhancement'', ''Order'', ''TWAPStrategy'', ''SBBStrategy'', ''SBBEMAStrategy'']"

definition py_global :: "string \<Rightarrow> error + unit" where
  "py_global name = (if name \<in> set module_globals then Inr () else Inl NameError)"

subsection \<open>The base classes\<close>

text \<open>
  Modelled from the spec: \<^verbatim>\<open>TradingEnhancement.reset\<close>, which line 27 and line 71 call with
  the parent orders, is not in the source file. The spec has \<^verbatim>\<open>reset\<close> bind the parent
  orders and fail with \<open>DuplicateKey\<close> if two of them share the same security and
  direction.
\<close>

definition TradingEnhancement_reset :: "Order list \<Rightarrow> error + Order list" where
  "TradingEnhancement_reset parent_orders =
     (if distinct (map trade_key parent_orders) then Inr parent_orders
      else Inl DuplicateKey)"

text \<open>
  Modelled from the spec: the base-class \<^verbatim>\<open>generate_order_list\<close> that both strategies
  mean to reach through \<^verbatim>\<open>super(...)\<close> is not in the source file. The spec gives it one
  effect, advancing the calendar cursor, after which the strategies read the cursor as
  the 1-based number of the current step; \<open>base_generate_order_list\<close> is that advance.
\<close>

definition base_generate_order_list :: "strategy \<Rightarrow> strategy" where
  "base_generate_order_list st = st\<lparr>trade_index := trade_index st + 1\<rparr>"

text \<open>
  Modelled from the spec: the same base-class method with the failure that the spec gives
  it, \<open>StepOutOfRange\<close> for a call beyond the last step of the calendar, in front of the
  advance.
\<close>

definition RuleStrategy_generate_order_list :: "strategy \<Rightarrow> error + strategy" where
  "RuleStrategy_generate_order_list st =
     (if trade_len st \<le> trade_index st then Inl StepOutOfRange
      else Inr (base_generate_order_list st))"

subsection \<open>TWAPStrategy\<close>

text \<open>
  The loop of \<^verbatim>\<open>TWAPStrategy.__init__\<close> (lines 22--23) over \<^verbatim>\<open>trade_order_list\<close>; the
  dictionary assignment overwrites an entry that is already there.
\<close>

fun twap_register :: "int \<Rightarrow> Order list \<Rightarrow> (trade_key \<rightharpoonup> int) \<Rightarrow> error + (trade_key \<rightharpoonup> int)" where
  "twap_register n [] am = Inr am"
| "twap_register n (order # orders) am =
     (case py_floordiv (amount order) n of
        Inl e \<Rightarrow> Inl e
      | Inr a \<Rightarrow> twap_register n orders (am(trade_key order \<mapsto> a)))"

text \<open>
  Lines 21--23 of \<^verbatim>\<open>TWAPStrategy.__init__\<close>, which run once \<^verbatim>\<open>reset\<close> has returned with
  the calendar \<open>dates\<close>, the number of steps \<open>n\<close> and the parent orders bound; the
  cursor stands before step 1.
\<close>

definition twap_init_body :: "timestamp list \<Rightarrow> int \<Rightarrow> Order list \<Rightarrow> error + strategy" where
  "twap_init_body dates n orders =
     (case twap_register n orders Map.empty of
        Inl e \<Rightarrow> Inl e
      | Inr am \<Rightarrow> Inr \<lparr>trade_dates = dates, trade_len = n, trade_index = 0,
                       trade_order_list = orders, trade_amount = am,
                       trade_trend = Map.empty\<rparr>)"

text \<open>The loop of \<^verbatim>\<open>TWAPStrategy.generate_order_list\<close> (lines 34--43).\<close>

fun twap_loop :: "strategy \<Rightarrow> timestamp \<Rightarrow> timestamp \<Rightarrow> Order list \<Rightarrow> Order list \<Rightarrow> error + Order list" where
  "twap_loop st trade_start_time trade_end_time [] order_list = Inr order_list"
| "twap_loop st trade_start_time trade_end_time (order # orders) order_list =
     (case py_getitem (trade_amount st) (trade_key order) of
        Inl e \<Rightarrow> Inl e
      | Inr a \<Rightarrow>
          twap_loop st trade_start_time trade_end_time orders
            (order_list @ [\<lparr>stock_id = stock_id order, amount = a,
                             start_time = trade_start_time, end_time = trade_end_time,
                             direction = direction order, factor = factor order\<rparr>]))"

text \<open>
  \<^verbatim>\<open>TWAPStrategy.generate_order_list\<close> (lines 29--44) in a module where the name read by
  line 30 is bound to the base class: line 30 is then the cursor advance of the base
  class.
\<close>

definition TWAPStrategy_generate_order_list :: "strategy \<Rightarrow> error + (Order list \<times> strategy)" where
  "TWAPStrategy_generate_order_list st0 =
     (let st = base_generate_order_list st0 in
      case py_index (trade_dates st) (trade_index st - 1) of
        Inl e \<Rightarrow> Inl e
      | Inr trade_start_time \<Rightarrow>
          (case py_index (trade_dates st) (trade_index st) of
             Inl e \<Rightarrow> Inl e
           | Inr trade_end_time \<Rightarrow>
               (case twap_loop st trade_start_time trade_end_time (trade_order_list st) [] of
                  Inl e \<Rightarrow> Inl e
                | Inr order_list \<Rightarrow> Inr (order_list, st))))"

subsection \<open>SBBStrategy\<close>

text \<open>
  The loop of \<^verbatim>\<open>SBBStrategy.__init__\<close> (lines 65--67) in a module where the bare
  \<^verbatim>\<open>TREND_MID\<close> of line 67 is bound to \<^verbatim>\<open>SBBStrategy.TREND_MID\<close>, writing the dictionary
  that line 64 creates.
\<close>

fun sbb_register ::
  "int \<Rightarrow> Order list \<Rightarrow> (trade_key \<rightharpoonup> int) \<Rightarrow> (trade_key \<rightharpoonup> trend) \<Rightarrow>
   error + ((trade_key \<rightharpoonup> int) \<times> (trade_key \<rightharpoonup> trend))" where
  "sbb_register n [] am tr = Inr (am, tr)"
| "sbb_register n (order # orders) am tr =
     (case py_floordiv (amount order) n of
        Inl e \<Rightarrow> Inl e
      | Inr a \<Rightarrow>
          sbb_register n orders (am(trade_key order \<mapsto> a)) (tr(trade_key order \<mapsto> TREND_MID)))"

text \<open>Lines 63--67 of \<^verbatim>\<open>SBBStrategy.__init__\<close>, which run once \<^verbatim>\<open>reset\<close> has returned.\<close>

definition sbb_init_body :: "timestamp list \<Rightarrow> int \<Rightarrow> Order list \<Rightarrow> error + strategy" where
  "sbb_init_body dates n orders =
     (case sbb_register n orders Map.empty Map.empty of
        Inl e \<Rightarrow> Inl e
      | Inr (am, tr) \<Rightarrow> Inr \<lparr>trade_dates = dates, trade_len = n, trade_index = 0,
                             trade_order_list = orders, trade_amount = am,
                             trade_trend = tr\<rparr>)"

text \<open>\<^verbatim>\<open>SBBStrategy._pred_price_trend\<close> (lines 73--74), the hook left abstract.\<close>

definition SBBStrategy_pred_price_trend :: predictor where
  "SBBStrategy_pred_price_trend stock pred_start_time pred_end_time = Inl NotImplementedError"

text \<open>
  Lines 78--81: the prediction window. \<^verbatim>\<open>pd.Timedelta(seconds=1)\<close> is one unit of
  \<open>timestamp\<close>.
\<close>

definition sbb_pred_window ::
  "strategy \<Rightarrow> timestamp \<Rightarrow> error + (timestamp option \<times> timestamp option)" where
  "sbb_pred_window st trade_start_time =
     (if trade_index st = 1 then Inr (None, Some (trade_start_time - 1))
      else (case py_index (trade_dates st) (trade_index st - 2) of
              Inl e \<Rightarrow> Inl e
            | Inr d \<Rightarrow> Inr (Some d, Some (trade_start_time - 1))))"

text \<open>
  The \<^verbatim>\<open>Order(...)\<close> call of lines 89--96, 101--108 and 112--119, with the factor
  \<open>k\<close> on the looked-up amount, followed by \<^verbatim>\<open>order_list.append\<close>.
\<close>

definition sbb_append ::
  "strategy \<Rightarrow> int \<Rightarrow> timestamp \<Rightarrow> timestamp \<Rightarrow> Order \<Rightarrow> Order list \<Rightarrow> error + Order list" where
  "sbb_append st k trade_start_time trade_end_time order order_list =
     (case py_getitem (trade_amount st) (trade_key order) of
        Inl e \<Rightarrow> Inl e
      | Inr a \<Rightarrow>
          Inr (order_list @ [\<lparr>stock_id = stock_id order, amount = k * a,
                               start_time = trade_start_time, end_time = trade_end_time,
                               direction = direction order, factor = factor order\<rparr>]))"

text \<open>
  The loop of \<^verbatim>\<open>SBBStrategy.generate_order_list\<close> (lines 83--122), with the colon of
  line 121 and in a module where the bare \<^verbatim>\<open>TREND_MID\<close> of line 88 is bound to
  \<^verbatim>\<open>SBBStrategy.TREND_MID\<close>. The hook is called with the stock alone (line 85), so both
  window arguments take their default \<^verbatim>\<open>None\<close>.
\<close>

fun sbb_loop ::
  "predictor \<Rightarrow> strategy \<Rightarrow> timestamp \<Rightarrow> timestamp \<Rightarrow> Order list \<Rightarrow> Order list \<Rightarrow>
   error + (Order list \<times> strategy)" where
  "sbb_loop pred st trade_start_time trade_end_time [] order_list = Inr (order_list, st)"
| "sbb_loop pred st trade_start_time trade_end_time (order # orders) order_list =
     (case (if trade_index st mod 2 = 1 then pred (stock_id order) None None
            else py_getitem (trade_trend st) (trade_key order)) of
        Inl e \<Rightarrow> Inl e
      | Inr pred_trend \<Rightarrow>
          (case (if pred_trend = TREND_MID
                 then sbb_append st 1 trade_start_time trade_end_time order order_list
                 else if trade_index st mod 2 = 1
                 then (if pred_trend = TREND_SHORT \<and> direction order = SELL
                          \<or> pred_trend = TREND_LONG \<and> direction order = BUY
                       then sbb_append st 2 trade_start_time trade_end_time order order_list
                       else Inr order_list)
                 else (if pred_trend = TREND_SHORT \<and> direction order = BUY
                          \<or> pred_trend = TREND_LONG \<and> direction order = SELL
                       then sbb_append st 2 trade_start_time trade_end_time order order_list
                       else Inr order_list)) of
             Inl e \<Rightarrow> Inl e
           | Inr order_list' \<Rightarrow>
               sbb_loop pred
                 (if trade_index st mod 2 = 1
                  then st\<lparr>trade_trend := (trade_trend st)(trade_key order \<mapsto> pred_trend)\<rparr>
                  else st)
                 trade_start_time trade_end_time orders order_list'))"

text \<open>
  \<^verbatim>\<open>SBBStrategy.generate_order_list\<close> (lines 76--124) in a module where the name read by
  line 77 is bound to the base class: line 77 is then the cursor advance of the base
  class.
\<close>

definition SBBStrategy_generate_order_list ::
  "predictor \<Rightarrow> strategy \<Rightarrow> timestamp \<Rightarrow> timestamp \<Rightarrow> error + (Order list \<times> strategy)" where
  "SBBStrategy_generate_order_list pred st0 trade_start_time trade_end_time =
     (let st = base_generate_order_list st0 in
      case sbb_pred_window st trade_start_time of
        Inl e \<Rightarrow> Inl e
      | Inr (pred_start_time, pred_end_time) \<Rightarrow>
          sbb_loop pred st trade_start_time trade_end_time (trade_order_list st) [])"

subsection \<open>The constructors and methods as shipped\<close>

text \<open>
  \<^verbatim>\<open>TWAPStrategy.reset\<close> (lines 25--27) and \<^verbatim>\<open>SBBStrategy.reset\<close> (lines 69--71), which read
  alike. The first statement evaluates \<^verbatim>\<open>super(SignalStrategy, self)\<close>, and so looks up
  \<^verbatim>\<open>SignalStrategy\<close>; were the name bound, the base class would bind the calendar and
  \<^verbatim>\<open>TradingEnhancement.reset\<close> the parent orders.
\<close>

definition TWAPStrategy_reset ::
  "timestamp list \<Rightarrow> int \<Rightarrow> Order list \<Rightarrow> error + (timestamp list \<times> int \<times> Order list)" where
  "TWAPStrategy_reset dates n parent_orders =
     (case py_global ''SignalStrategy'' of
        Inl e \<Rightarrow> Inl e
      | Inr u \<Rightarrow>
          (case TradingEnhancement_reset parent_orders of
             Inl e \<Rightarrow> Inl e
           | Inr orders \<Rightarrow> Inr (dates, n, orders)))"

definition SBBStrategy_reset ::
  "timestamp list \<Rightarrow> int \<Rightarrow> Order list \<Rightarrow> error + (timestamp list \<times> int \<times> Order list)" where
  "SBBStrategy_reset dates n parent_orders =
     (case py_global ''SignalStrategy'' of
        Inl e \<Rightarrow> Inl e
      | Inr u \<Rightarrow>
          (case TradingEnhancement_reset parent_orders of
             Inl e \<Rightarrow> Inl e
           | Inr orders \<Rightarrow> Inr (dates, n, orders)))"

text \<open>
  \<^verbatim>\<open>TWAPStrategy.__init__\<close> (lines 12--23) and \<^verbatim>\<open>SBBStrategy.__init__\<close> (lines 54--67):
  \<^verbatim>\<open>self.reset(...)\<close> first, then the registration of the base amounts.
\<close>

definition TWAPStrategy_init_shipped ::
  "timestamp list \<Rightarrow> int \<Rightarrow> Order list \<Rightarrow> error + strategy" where
  "TWAPStrategy_init_shipped dates n parent_orders =
     (case TWAPStrategy_reset dates n parent_orders of
        Inl e \<Rightarrow> Inl e
      | Inr (dates', n', orders) \<Rightarrow> twap_init_body dates' n' orders)"

definition SBBStrategy_init_shipped ::
  "timestamp list \<Rightarrow> int \<Rightarrow> Order list \<Rightarrow> error + strategy" where
  "SBBStrategy_init_shipped dates n parent_orders =
     (case SBBStrategy_reset dates n parent_orders of
        Inl e \<Rightarrow> Inl e
      | Inr (dates', n', orders) \<Rightarrow> sbb_init_body dates' n' orders)"

text \<open>
  \<^verbatim>\<open>TWAPStrategy.generate_order_list\<close> (lines 29--44) and
  \<^verbatim>\<open>SBBStrategy.generate_order_list\<close> (lines 76--124) as shipped. The first statement
  evaluates \<^verbatim>\<open>super(TopkDropoutStrategy, self)\<close>, and so looks up \<^verbatim>\<open>TopkDropoutStrategy\<close>;
  were the name bound, the base class would check the step and advance the cursor, and
  the rest of the method would follow (the definitions above make the advance again for
  themselves).
\<close>

definition TWAPStrategy_generate_order_list_shipped ::
  "strategy \<Rightarrow> error + (Order list \<times> strategy)" where
  "TWAPStrategy_generate_order_list_shipped st =
     (case py_global ''TopkDropoutStrategy'' of
        Inl e \<Rightarrow> Inl e
      | Inr u \<Rightarrow>
          (case RuleStrategy_generate_order_list st of
             Inl e \<Rightarrow> Inl e
           | Inr st' \<Rightarrow> TWAPStrategy_generate_order_list st))"

definition SBBStrategy_generate_order_list_shipped ::
  "predictor \<Rightarrow> strategy \<Rightarrow> timestamp \<Rightarrow> timestamp \<Rightarrow> error + (Order list \<times> strategy)" where
  "SBBStrategy_generate_order_list_shipped pred st trade_start_time trade_end_time =
     (case py_global ''TopkDropoutStrategy'' of
        Inl e \<Rightarrow> Inl e
      | Inr u \<Rightarrow>
          (case RuleStrategy_generate_order_list st of
             Inl e \<Rightarrow> Inl e
           | Inr st' \<Rightarrow>
               SBBStrategy_generate_order_list pred st trade_start_time trade_end_time))"

subsection \<open>SBBEMAStrategy\<close>

text \<open>
  The frame that \<^verbatim>\<open>sample_feature\<close> returns is a list of rows of cells; a cell is a float,
  of which the comparison \<^verbatim>\<open>> 0\<close> sees a number or \<^verbatim>\<open>NaN\<close>. \<^verbatim>\<open>sample_feature\<close> itself
  belongs to \<^verbatim>\<open>qlib.utils\<close> and is a parameter, as is the signal it samples.
\<close>

datatype cell = Num real | NaN

type_synonym frame = "cell list list"

text \<open>\<^verbatim>\<open>DataFrame.empty\<close>: some axis has length 0.\<close>

definition frame_empty :: "frame \<Rightarrow> bool" where
  "frame_empty df = (case df of [] \<Rightarrow> True | row # rows \<Rightarrow> row = [])"

text \<open>\<^verbatim>\<open>df.iloc[0, 0]\<close>.\<close>

definition iloc00 :: "frame \<Rightarrow> error + cell" where
  "iloc00 df = (case df of [] \<Rightarrow> Inl IndexError
                | row # rows \<Rightarrow> (case row of [] \<Rightarrow> Inl IndexError | c # cs \<Rightarrow> Inr c))"

text \<open>\<^verbatim>\<open>x > 0\<close> on a float: false on \<^verbatim>\<open>NaN\<close>.\<close>

fun cell_gt0 :: "cell \<Rightarrow> bool" where
  "cell_gt0 (Num x) = (0 < x)"
| "cell_gt0 NaN = False"

text \<open>\<^verbatim>\<open>SBBEMAStrategy._pred_price_trend\<close> (lines 154--161).\<close>

definition SBBEMAStrategy_pred_price_trend ::
  "('s \<Rightarrow> string \<Rightarrow> timestamp option \<Rightarrow> timestamp option \<Rightarrow> frame) \<Rightarrow> 's \<Rightarrow> predictor" where
  "SBBEMAStrategy_pred_price_trend sample_feature signal stock pred_start_time pred_end_time =
     (let sample_signal = sample_feature signal stock pred_start_time pred_end_time in
      if frame_empty sample_signal then Inr TREND_MID
      else (case iloc00 sample_signal of
              Inl e \<Rightarrow> Inl e
            | Inr c \<Rightarrow> if cell_gt0 c then Inr TREND_LONG else Inr TREND_SHORT))"

subsection \<open>The caller and the decision table\<close>

text \<open>
  Modelled from the spec: the backtest loop that owns a strategy is not in the source
  file. The spec has it call \<^verbatim>\<open>generate_order_list\<close> once per step, in step order;
  \<open>twap_run st n\<close> makes \<open>n\<close> such calls of \<open>TWAPStrategy_generate_order_list\<close>, the
  method with its names bound, and collects what each returns.
\<close>

fun twap_run :: "strategy \<Rightarrow> nat \<Rightarrow> error + (Order list list \<times> strategy)" where
  "twap_run st 0 = Inr ([], st)"
| "twap_run st (Suc n) =
     (case TWAPStrategy_generate_order_list st of
        Inl e \<Rightarrow> Inl e
      | Inr (out, st') \<Rightarrow>
          (case twap_run st' n of
             Inl e \<Rightarrow> Inl e
           | Inr (outs, st'') \<Rightarrow> Inr (out # outs, st'')))"

text \<open>
  Modelled from the spec: the same loop for \<^verbatim>\<open>SBBStrategy\<close>, whose
  \<^verbatim>\<open>generate_order_list\<close> takes the times of the step as arguments; the caller passes the
  calendar bounds of the step that the call is about to enter.
\<close>

fun sbb_run :: "predictor \<Rightarrow> strategy \<Rightarrow> nat \<Rightarrow> error + (Order list list \<times> strategy)" where
  "sbb_run pred st 0 = Inr ([], st)"
| "sbb_run pred st (Suc n) =
     (case py_index (trade_dates st) (trade_index st) of
        Inl e \<Rightarrow> Inl e
      | Inr trade_start_time \<Rightarrow>
          (case py_index (trade_dates st) (trade_index st + 1) of
             Inl e \<Rightarrow> Inl e
           | Inr trade_end_time \<Rightarrow>
               (case SBBStrategy_generate_order_list pred st trade_start_time trade_end_time of
                  Inl e \<Rightarrow> Inl e
                | Inr (out, st') \<Rightarrow>
                    (case sbb_run pred st' n of
                       Inl e \<Rightarrow> Inl e
                     | Inr (outs, st'') \<Rightarrow> Inr (out # outs, st'')))))"

text \<open>
  The child order of a parent: stock, direction and factor of the parent, the given
  amount and times.
\<close>

abbreviation child :: "Order \<Rightarrow> int \<Rightarrow> timestamp \<Rightarrow> timestamp \<Rightarrow> Order" where
  "child order a ts te \<equiv>
     \<lparr>stock_id = stock_id order, amount = a, start_time = ts, end_time = te,
      direction = direction order, factor = factor order\<rparr>"

text \<open>The child orders of one key within the orders of a step.\<close>

definition orders_of :: "trade_key \<Rightarrow> Order list \<Rightarrow> Order list" where
  "orders_of k out = filter (\<lambda>c. trade_key c = k) out"

text \<open>
  The decision table of section 4.3 of the specification, row by row, written after the
  specification and not after the source: trend, phase (\<open>True\<close> for an odd step),
  direction; the result is the multiple of the base amount to emit, or \<open>None\<close> for
  a step that emits nothing.
\<close>

fun spec_action :: "trend \<Rightarrow> bool \<Rightarrow> direction \<Rightarrow> int option" where
  "spec_action TREND_MID phase d = Some 1"
| "spec_action TREND_SHORT True SELL = Some 2"
| "spec_action TREND_SHORT True BUY = None"
| "spec_action TREND_SHORT False BUY = Some 2"
| "spec_action TREND_SHORT False SELL = None"
| "spec_action TREND_LONG True BUY = Some 2"
| "spec_action TREND_LONG True SELL = None"
| "spec_action TREND_LONG False SELL = Some 2"
| "spec_action TREND_LONG False BUY = None"

definition spec_children ::
  "int \<Rightarrow> trend \<Rightarrow> bool \<Rightarrow> Order \<Rightarrow> timestamp \<Rightarrow> timestamp \<Rightarrow> Order list" where
  "spec_children b t phase order ts te =
     (case spec_action t phase (direction order) of
        None \<Rightarrow> []
      | Some k \<Rightarrow> [child order (k * b) ts te])"

subsection \<open>An example run\<close>

text \<open>
  The example of section 8 of the specification: 100 units to buy over three steps, and
  beside it 50 units of the same stock to sell. \<open>example_sbb\<close> is the strategy that
  \<open>sbb_init_body\<close> registers for them, \<open>example_twap\<close> the one of
  \<open>twap_init_body\<close>.
\<close>

definition example_dates :: "timestamp list" where
  "example_dates = [0, 60, 120, 180]"

definition example_buy :: Order where
  "example_buy = \<lparr>stock_id = ''SH600000'', amount = 100, start_time = 0, end_time = 180,
                   direction = BUY, factor = 1\<rparr>"

definition example_sell :: Order where
  "example_sell = \<lparr>stock_id = ''SH600000'', amount = 50, start_time = 0, end_time = 180,
                    direction = SELL, factor = 1\<rparr>"

definition example_amount :: "trade_key \<rightharpoonup> int" where
  "example_amount = [(''SH600000'', BUY) \<mapsto> 33, (''SH600000'', SELL) \<mapsto> 16]"

definition example_twap :: strategy where
  "example_twap = \<lparr>trade_dates = example_dates, trade_len = 3, trade_index = 0,
                    trade_order_list = [example_buy, example_sell],
                    trade_amount = example_amount, trade_trend = Map.empty\<rparr>"

definition example_sbb :: strategy where
  "example_sbb = \<lparr>trade_dates = example_dates, trade_len = 3, trade_index = 0,
                   trade_order_list = [example_buy, example_sell],
                   trade_amount = example_amount,
                   trade_trend = [(''SH600000'', BUY) \<mapsto> TREND_MID,
                                  (''SH600000'', SELL) \<mapsto> TREND_MID]\<rparr>"

text \<open>A second parent order with the key of \<open>example_buy\<close>.\<close>

definition example_rebuy :: Order where
  "example_rebuy = \<lparr>stock_id = ''SH600000'', amount = 40, start_time = 0, end_time = 180,
                     direction = BUY, factor = 1\<rparr>"

text \<open>
  A hook that looks at its window: \<open>TREND_LONG\<close> on the window from 60 to 119, which
  is the window of step 3 of \<open>example_dates\<close>, and \<open>TREND_MID\<close> on every other.
\<close>

definition window_pred :: predictor where
  "window_pred stock pred_start_time pred_end_time =
     (if pred_start_time = Some 60 \<and> pred_end_time = Some 119 then Inr TREND_LONG
      else Inr TREND_MID)"

text \<open>Hooks that answer the same trend to every call.\<close>

definition always_mid :: predictor where
  "always_mid stock pred_start_time pred_end_time = Inr TREND_MID"

definition always_long :: predictor where
  "always_long stock pred_start_time pred_end_time = Inr TREND_LONG"

section \<open>The constructors and methods as shipped\<close>

lemma py_global_unbound:
  "py_global ''SignalStrategy'' = Inl NameError"
  "py_global ''TopkDropoutStrategy'' = Inl NameError"
  "py_global ''TREND_MID'' = Inl NameError"
  by (simp_all add: py_global_def module_globals_def)

text \<open>
  C1. As shipped, \<^verbatim>\<open>TWAPStrategy\<close> registers no base amount and emits no child order, for
  any calendar, step count and parent orders: the constructor raises \<open>NameError\<close> in
  \<^verbatim>\<open>reset\<close> (line 26) before line 23 is reached, and \<^verbatim>\<open>generate_order_list\<close> raises
  \<open>NameError\<close> in its first statement (line 30) on every strategy.
\<close>

theorem twap_shipped_raises_name_error:
  "TWAPStrategy_init_shipped dates n parent_orders = Inl NameError
   \<and> TWAPStrategy_generate_order_list_shipped st = Inl NameError"
  by (simp add: TWAPStrategy_init_shipped_def TWAPStrategy_reset_def
        TWAPStrategy_generate_order_list_shipped_def py_global_unbound)

text \<open>
  C2. As shipped, \<^verbatim>\<open>SBBStrategy\<close> takes no row of the decision table. On the example, with
  a hook that answers \<open>TREND_LONG\<close>, the constructor raises \<open>NameError\<close> (line 70), the
  odd step 1 raises \<open>NameError\<close> (line 77) where the table has 66 for the BUY key, and
  so does the even step 2, entered with \<open>TREND_LONG\<close> stored, where the table has 32 for
  the SELL key.
\<close>

theorem sbb_shipped_takes_no_table_row:
  "SBBStrategy_init_shipped example_dates 3 [example_buy, example_sell] = Inl NameError
   \<and> SBBStrategy_generate_order_list_shipped always_long example_sbb 0 60 = Inl NameError
   \<and> SBBStrategy_generate_order_list_shipped always_long
        (example_sbb\<lparr>trade_index := 1,
                      trade_trend := [(''SH600000'', BUY) \<mapsto> TREND_LONG,
                                      (''SH600000'', SELL) \<mapsto> TREND_LONG]\<rparr>) 60 120
       = Inl NameError"
  by (simp add: SBBStrategy_init_shipped_def SBBStrategy_reset_def
        SBBStrategy_generate_order_list_shipped_def py_global_unbound)

text \<open>
  C4. As shipped, neither strategy produces a sequence of child orders to compare. On
  the example, with a hook that answers \<open>TREND_MID\<close> to every call, both constructors
  raise \<open>NameError\<close> (lines 26, 70) and the first step of both raises \<open>NameError\<close>
  (lines 30, 77).
\<close>

theorem shipped_mid_steps_raise_name_error:
  "TWAPStrategy_init_shipped example_dates 3 [example_buy, example_sell] = Inl NameError
   \<and> SBBStrategy_init_shipped example_dates 3 [example_buy, example_sell] = Inl NameError
   \<and> TWAPStrategy_generate_order_list_shipped example_twap = Inl NameError
   \<and> SBBStrategy_generate_order_list_shipped always_mid example_sbb 0 60 = Inl NameError"
  by (simp add: TWAPStrategy_init_shipped_def TWAPStrategy_reset_def
        SBBStrategy_init_shipped_def SBBStrategy_reset_def
        TWAPStrategy_generate_order_list_shipped_def
        SBBStrategy_generate_order_list_shipped_def py_global_unbound)

text \<open>
  C5. As shipped, \<^verbatim>\<open>SBBStrategy\<close> never writes and never reads a trend: the constructor
  raises \<open>NameError\<close> (line 70) before line 67, and \<^verbatim>\<open>generate_order_list\<close> raises
  \<open>NameError\<close> (line 77), for every hook, strategy and pair of times, on odd and on even
  steps alike, before the hook is called or \<^verbatim>\<open>trade_trend\<close> is touched.
\<close>

theorem sbb_shipped_never_stores_a_trend:
  "SBBStrategy_init_shipped dates n parent_orders = Inl NameError
   \<and> SBBStrategy_generate_order_list_shipped pred st trade_start_time trade_end_time
       = Inl NameError"
  by (simp add: SBBStrategy_init_shipped_def SBBStrategy_reset_def
        SBBStrategy_generate_order_list_shipped_def py_global_unbound)

text \<open>
  C6. Two parent orders with the same stock and direction: \<^verbatim>\<open>TradingEnhancement.reset\<close>
  as the specification has it would refuse them with \<open>DuplicateKey\<close>, but as shipped
  both constructors raise \<open>NameError\<close> (lines 26, 70) in the statement before the one
  that calls it.
\<close>

theorem shipped_init_duplicate_key:
  "trade_key example_buy = trade_key example_rebuy
   \<and> TradingEnhancement_reset [example_buy, example_rebuy] = Inl DuplicateKey
   \<and> TWAPStrategy_init_shipped example_dates 3 [example_buy, example_rebuy] = Inl NameError
   \<and> SBBStrategy_init_shipped example_dates 3 [example_buy, example_rebuy] = Inl NameError"
  by (simp add: TWAPStrategy_init_shipped_def TWAPStrategy_reset_def
        SBBStrategy_init_shipped_def SBBStrategy_reset_def TradingEnhancement_reset_def
        py_global_unbound trade_key_def example_buy_def example_rebuy_def)

text \<open>
  C7. A call after the last step: on the example, with the cursor at 3 on a calendar of
  3 steps, the base-class method as the specification has it would fail with
  \<open>StepOutOfRange\<close>, but as shipped \<^verbatim>\<open>generate_order_list\<close> of both strategies raises
  \<open>NameError\<close> (lines 30, 77) before calling it, as it does on every other step.
\<close>

theorem shipped_call_beyond_last_step:
  "trade_len (example_twap\<lparr>trade_index := 3\<rparr>) = trade_index (example_twap\<lparr>trade_index := 3\<rparr>)
   \<and> RuleStrategy_generate_order_list (example_twap\<lparr>trade_index := 3\<rparr>) = Inl StepOutOfRange
   \<and> TWAPStrategy_generate_order_list_shipped (example_twap\<lparr>trade_index := 3\<rparr>) = Inl NameError
   \<and> SBBStrategy_generate_order_list_shipped always_mid (example_sbb\<lparr>trade_index := 3\<rparr>) 180 240
       = Inl NameError"
  by (simp add: RuleStrategy_generate_order_list_def
        TWAPStrategy_generate_order_list_shipped_def
        SBBStrategy_generate_order_list_shipped_def py_global_unbound
        example_twap_def example_sbb_def)

text \<open>
  With the names bound, the constructors refuse a repeated key and the methods refuse a
  step beyond the last, by the base classes as the specification has them.
\<close>

lemma bound_reset_duplicate_key:
  "\<not> distinct (map trade_key orders) \<Longrightarrow> TradingEnhancement_reset orders = Inl DuplicateKey"
  by (simp add: TradingEnhancement_reset_def)

lemma bound_step_out_of_range:
  "trade_len st \<le> trade_index st \<Longrightarrow> RuleStrategy_generate_order_list st = Inl StepOutOfRange"
  by (simp add: RuleStrategy_generate_order_list_def)

section \<open>Registration and the TWAP step\<close>

lemmas example_defs = example_sbb_def example_twap_def example_dates_def example_buy_def
  example_sell_def example_amount_def

lemma example_twap_init:
  "twap_init_body example_dates 3 [example_buy, example_sell] = Inr example_twap"
  by (simp add: twap_init_body_def py_floordiv_def trade_key_def example_defs)

lemma example_sbb_init:
  "sbb_init_body example_dates 3 [example_buy, example_sell] = Inr example_sbb"
  by (simp add: sbb_init_body_def py_floordiv_def trade_key_def example_defs)

lemma trade_key_child [simp]: "trade_key (child order a ts te) = trade_key order"
  by (simp add: trade_key_def)

lemma twap_register_eq:
  "n \<noteq> 0 \<Longrightarrow> twap_register n orders am
     = Inr (am ++ map_of (rev (map (\<lambda>order. (trade_key order, amount order div n)) orders)))"
  by (induction orders arbitrary: am) (simp_all add: py_floordiv_def)

lemma twap_register_zero:
  "twap_register 0 (order # orders) am = Inl ZeroDivisionError"
  by (simp add: py_floordiv_def)

lemma registered_last:
  assumes "trade_key order \<notin> trade_key ` set ys"
  shows "map_of (rev (map (\<lambda>order. (trade_key order, f order)) (xs @ order # ys))) (trade_key order)
     = Some (f order)"
proof -
  have "map_of (rev (map (\<lambda>order. (trade_key order, f order)) ys)) (trade_key order) = None"
    using assms by (simp add: map_of_eq_None_iff image_image)
  then show ?thesis
    by (simp add: map_add_def)
qed

lemma registered_dom:
  "dom (map_of (rev (map (\<lambda>order. (trade_key order, f order)) orders)))
     = trade_key ` set orders"
  by (auto simp: dom_map_of_conv_image_fst image_image)

lemma registered_distinct:
  assumes "distinct (map trade_key orders)" "order \<in> set orders"
  shows "map_of (rev (map (\<lambda>order. (trade_key order, f order)) orders)) (trade_key order)
     = Some (f order)"
proof -
  from assms(2) obtain xs ys where s: "orders = xs @ order # ys"
    by (auto simp: in_set_conv_decomp)
  with assms(1) have "trade_key order \<notin> trade_key ` set ys" by auto
  then show ?thesis unfolding s by (rule registered_last)
qed

lemma twap_loop_eq:
  "\<forall>order \<in> set orders. trade_key order \<in> dom (trade_amount st) \<Longrightarrow>
   twap_loop st ts te orders acc
     = Inr (acc @ map (\<lambda>order. child order (the (trade_amount st (trade_key order))) ts te) orders)"
  by (induction orders arbitrary: acc) (auto simp: py_getitem_def)

lemma py_index_nat: "0 \<le> i \<Longrightarrow> i < int (length xs) \<Longrightarrow> py_index xs i = Inr (xs ! nat i)"
  by (simp add: py_index_def)

lemma py_index_beyond: "int (length xs) \<le> i \<Longrightarrow> py_index xs i = Inl IndexError"
  by (simp add: py_index_def)

lemma twap_step_eq:
  assumes "0 \<le> trade_index st" "trade_index st + 1 < int (length (trade_dates st))"
    and "\<forall>order \<in> set (trade_order_list st). trade_key order \<in> dom (trade_amount st)"
  shows "TWAPStrategy_generate_order_list st
     = Inr (map (\<lambda>order. child order (the (trade_amount st (trade_key order)))
                   (trade_dates st ! nat (trade_index st))
                   (trade_dates st ! Suc (nat (trade_index st)))) (trade_order_list st),
            st\<lparr>trade_index := trade_index st + 1\<rparr>)"
proof -
  let ?st = "base_generate_order_list st"
  have a: "py_index (trade_dates ?st) (trade_index ?st - 1) = Inr (trade_dates st ! nat (trade_index st))"
    using assms(1,2) by (simp add: base_generate_order_list_def py_index_nat)
  have b: "py_index (trade_dates ?st) (trade_index ?st) = Inr (trade_dates st ! Suc (nat (trade_index st)))"
    using assms(1,2) by (simp add: base_generate_order_list_def py_index_nat nat_add_distrib)
  have c: "\<forall>order \<in> set (trade_order_list ?st). trade_key order \<in> dom (trade_amount ?st)"
    using assms(3) by (simp add: base_generate_order_list_def)
  show ?thesis
    unfolding TWAPStrategy_generate_order_list_def Let_def a b twap_loop_eq [OF c]
    by (simp add: base_generate_order_list_def)
qed

lemma twap_run_eq:
  assumes "0 \<le> trade_index st" "trade_index st + int n < int (length (trade_dates st))"
    and "\<forall>order \<in> set (trade_order_list st). trade_key order \<in> dom (trade_amount st)"
  shows "\<exists>outs. twap_run st n = Inr (outs, st\<lparr>trade_index := trade_index st + int n\<rparr>)
           \<and> length outs = n
           \<and> (\<forall>j<n. outs ! j
                 = map (\<lambda>order. child order (the (trade_amount st (trade_key order)))
                          (trade_dates st ! (nat (trade_index st) + j))
                          (trade_dates st ! Suc (nat (trade_index st) + j)))
                     (trade_order_list st))"
  using assms
proof (induction n arbitrary: st)
  case 0
  then show ?case by simp
next
  case (Suc n)
  let ?st' = "st\<lparr>trade_index := trade_index st + 1\<rparr>"
  have step: "TWAPStrategy_generate_order_list st
     = Inr (map (\<lambda>order. child order (the (trade_amount st (trade_key order)))
                   (trade_dates st ! nat (trade_index st))
                   (trade_dates st ! Suc (nat (trade_index st)))) (trade_order_list st), ?st')"
    using Suc.prems by (intro twap_step_eq) auto
  have "\<exists>outs. twap_run ?st' n = Inr (outs, ?st'\<lparr>trade_index := trade_index ?st' + int n\<rparr>)
           \<and> length outs = n
           \<and> (\<forall>j<n. outs ! j
                 = map (\<lambda>order. child order (the (trade_amount ?st' (trade_key order)))
                          (trade_dates ?st' ! (nat (trade_index ?st') + j))
                          (trade_dates ?st' ! Suc (nat (trade_index ?st') + j)))
                     (trade_order_list ?st'))"
    using Suc.prems by (intro Suc.IH) auto
  then obtain outs where run: "twap_run ?st' n = Inr (outs, st\<lparr>trade_index := trade_index st + 1 + int n\<rparr>)"
    and len: "length outs = n"
    and nth: "\<forall>j<n. outs ! j
                 = map (\<lambda>order. child order (the (trade_amount st (trade_key order)))
                          (trade_dates st ! (nat (trade_index st + 1) + j))
                          (trade_dates st ! Suc (nat (trade_index st + 1) + j)))
                     (trade_order_list st)"
    by auto
  have idx: "nat (trade_index st + 1) = Suc (nat (trade_index st))"
    using Suc.prems(1) by simp
  show ?case
    unfolding twap_run.simps step
    using run len nth idx
    by (auto simp: nth_Cons' add.commute add.left_commute)
qed

lemma orders_of_children:
  assumes "distinct (map trade_key orders)" "order \<in> set orders"
  shows "orders_of (trade_key order) (map (\<lambda>order. child order (g order) ts te) orders)
           = [child order (g order) ts te]"
  using assms
proof (induction orders)
  case Nil
  then show ?case by simp
next
  case (Cons a orders)
  show ?case
  proof (cases "a = order")
    case True
    have "filter (\<lambda>c. trade_key c = trade_key order) (map (\<lambda>order. child order (g order) ts te) orders) = []"
      using Cons.prems(1) True by (auto simp: filter_empty_conv image_iff)
    then show ?thesis using True by (simp add: orders_of_def)
  next
    case False
    then have "order \<in> set orders" "trade_key a \<noteq> trade_key order"
      using Cons.prems by auto
    then show ?thesis
      using Cons.IH Cons.prems(1) by (simp add: orders_of_def)
  qed
qed


lemma twap_init_body_eq:
  "n \<noteq> 0 \<Longrightarrow> twap_init_body dates n orders
     = Inr \<lparr>trade_dates = dates, trade_len = n, trade_index = 0, trade_order_list = orders,
            trade_amount = map_of (rev (map (\<lambda>order. (trade_key order, amount order div n)) orders)),
            trade_trend = Map.empty\<rparr>"
  by (simp add: twap_init_body_def twap_register_eq)

section \<open>Conservation in TWAPStrategy, names bound\<close>

text \<open>
  With the names bound: a parent order of amount \<open>A\<close>, the only one of its key, is
  worked over \<open>N > 0\<close> steps of a calendar of \<open>N + 1\<close> boundaries. Lines 21--23 register
  the base amount \<open>A div N\<close>; the \<open>N\<close> calls of the method all return, each with exactly
  one child order of the key, of amount \<open>A div N\<close> and with the bounds of its step; the
  amounts add up to \<open>N * (A div N)\<close>, which is at most \<open>A\<close> and misses \<open>A\<close> by less than
  \<open>N\<close>.
\<close>

lemma bound_twap_conservation:
  assumes "0 < N" "int (length dates) = N + 1"
    and "distinct (map trade_key orders)" "order \<in> set orders"
  shows "\<exists>st outs st'.
           twap_init_body dates N orders = Inr st
         \<and> trade_amount st (trade_key order) = Some (amount order div N)
         \<and> twap_run st (nat N) = Inr (outs, st')
         \<and> length outs = nat N
         \<and> (\<forall>j<nat N. orders_of (trade_key order) (outs ! j)
                = [child order (amount order div N) (dates ! j) (dates ! Suc j)])
         \<and> (\<Sum>j<nat N. sum_list (map amount (orders_of (trade_key order) (outs ! j))))
             = N * (amount order div N)
         \<and> N * (amount order div N) \<le> amount order
         \<and> amount order - N * (amount order div N) < N"
proof -
  let ?am = "map_of (rev (map (\<lambda>order. (trade_key order, amount order div N)) orders))"
  let ?st = "\<lparr>trade_dates = dates, trade_len = N, trade_index = 0, trade_order_list = orders,
              trade_amount = ?am, trade_trend = Map.empty\<rparr>"
  have init: "twap_init_body dates N orders = Inr ?st"
    using assms(1) by (simp add: twap_init_body_eq)
  have base: "trade_amount ?st (trade_key order) = Some (amount order div N)"
    using registered_distinct [OF assms(3,4), of "\<lambda>order. amount order div N"] by simp
  have dom: "\<forall>order \<in> set (trade_order_list ?st). trade_key order \<in> dom (trade_amount ?st)"
    by (simp add: registered_dom)
  have "\<exists>outs. twap_run ?st (nat N) = Inr (outs, ?st\<lparr>trade_index := trade_index ?st + int (nat N)\<rparr>)
           \<and> length outs = nat N
           \<and> (\<forall>j<nat N. outs ! j
                 = map (\<lambda>order. child order (the (trade_amount ?st (trade_key order)))
                          (trade_dates ?st ! (nat (trade_index ?st) + j))
                          (trade_dates ?st ! Suc (nat (trade_index ?st) + j)))
                     (trade_order_list ?st))"
    using assms(1,2) dom by (intro twap_run_eq) simp_all
  then obtain outs st' where run: "twap_run ?st (nat N) = Inr (outs, st')"
    and len: "length outs = nat N"
    and nth: "\<forall>j<nat N. outs ! j
                 = map (\<lambda>order. child order (the (?am (trade_key order))) (dates ! j) (dates ! Suc j))
                     orders"
    by auto
  have each: "orders_of (trade_key order) (outs ! j)
                = [child order (amount order div N) (dates ! j) (dates ! Suc j)]"
    if "j < nat N" for j
    using nth that orders_of_children [OF assms(3,4), of "\<lambda>order. the (?am (trade_key order))"] base
    by simp
  have total: "(\<Sum>j<nat N. sum_list (map amount (orders_of (trade_key order) (outs ! j))))
                 = N * (amount order div N)"
    using each assms(1) by simp
  have "amount order - N * (amount order div N) = amount order mod N"
    by (simp add: minus_mult_div_eq_mod)
  moreover have "0 \<le> amount order mod N" "amount order mod N < N"
    using assms(1) by simp_all
  ultimately have bounds: "N * (amount order div N) \<le> amount order"
      "amount order - N * (amount order div N) < N"
    by linarith+
  show ?thesis
    using init base run len each total bounds by blast
qed

section \<open>The SBB loop\<close>

lemma sbb_register_eq:
  "n \<noteq> 0 \<Longrightarrow> sbb_register n orders am tr
     = Inr (am ++ map_of (rev (map (\<lambda>order. (trade_key order, amount order div n)) orders)),
            (\<lambda>k. if k \<in> trade_key ` set orders then Some TREND_MID else tr k))"
proof (induction orders arbitrary: am tr)
  case Nil
  then show ?case by simp
next
  case (Cons order orders)
  have "(\<lambda>k. if k \<in> trade_key ` set orders then Some TREND_MID
              else (tr(trade_key order \<mapsto> TREND_MID)) k)
        = (\<lambda>k. if k \<in> trade_key ` set (order # orders) then Some TREND_MID else tr k)"
    by (auto simp: fun_eq_iff)
  then show ?case
    using Cons by (simp add: py_floordiv_def)
qed

lemma sbb_init_body_eq:
  "n \<noteq> 0 \<Longrightarrow> sbb_init_body dates n orders
     = Inr \<lparr>trade_dates = dates, trade_len = n, trade_index = 0, trade_order_list = orders,
            trade_amount = map_of (rev (map (\<lambda>order. (trade_key order, amount order div n)) orders)),
            trade_trend = (\<lambda>k. if k \<in> trade_key ` set orders then Some TREND_MID else None)\<rparr>"
  by (simp add: sbb_init_body_def sbb_register_eq)

lemma sbb_append_eq:
  "trade_amount st (trade_key order) = Some a \<Longrightarrow>
   sbb_append st k ts te order acc = Inr (acc @ [child order (k * a) ts te])"
  by (simp add: sbb_append_def py_getitem_def)

text \<open>One turn of the loop of lines 83--122: its branches are the rows of the decision table.\<close>

lemma sbb_loop_turn:
  assumes "(if trade_index st mod 2 = 1 then pred (stock_id order) None None
            else py_getitem (trade_trend st) (trade_key order)) = Inr t"
    and "trade_amount st (trade_key order) = Some a"
  shows "sbb_loop pred st ts te (order # orders) acc
     = sbb_loop pred
         (if trade_index st mod 2 = 1
          then st\<lparr>trade_trend := (trade_trend st)(trade_key order \<mapsto> t)\<rparr> else st)
         ts te orders
         (acc @ spec_children a t (trade_index st mod 2 = 1) order ts te)"
  unfolding sbb_loop.simps assms(1) sum.case
  by (cases t; cases "direction order"; cases "trade_index st mod 2 = 1")
     (simp_all add: sbb_append_eq [OF assms(2)] spec_children_def)

lemma sbb_loop_odd:
  assumes "trade_index st mod 2 = 1"
    and "\<forall>order \<in> set orders. pred (stock_id order) None None = Inr (p (stock_id order))"
    and "\<forall>order \<in> set orders. trade_key order \<in> dom (trade_amount st)"
  shows "sbb_loop pred st ts te orders acc
     = Inr (acc @ concat (map (\<lambda>order. spec_children (the (trade_amount st (trade_key order)))
                                 (p (stock_id order)) True order ts te) orders),
            st\<lparr>trade_trend := (\<lambda>k. if k \<in> trade_key ` set orders then Some (p (fst k))
                                    else trade_trend st k)\<rparr>)"
  using assms
proof (induction orders arbitrary: st acc)
  case Nil
  then show ?case by simp
next
  case (Cons order orders)
  let ?t = "p (stock_id order)"
  let ?st = "st\<lparr>trade_trend := (trade_trend st)(trade_key order \<mapsto> ?t)\<rparr>"
  obtain a where a: "trade_amount st (trade_key order) = Some a"
    using Cons.prems(3) by auto
  have pr: "(if trade_index st mod 2 = 1 then pred (stock_id order) None None
             else py_getitem (trade_trend st) (trade_key order)) = Inr ?t"
    using Cons.prems(1,2) by simp
  have turn: "sbb_loop pred st ts te (order # orders) acc
     = sbb_loop pred ?st ts te orders (acc @ spec_children a ?t True order ts te)"
    unfolding sbb_loop_turn [where pred = pred and st = st and order = order, OF pr a] using Cons.prems(1) by simp
  have tt: "trade_trend ?st = (trade_trend st)(trade_key order \<mapsto> ?t)"
    by simp
  have ih: "sbb_loop pred ?st ts te orders acc'
     = Inr (acc' @ concat (map (\<lambda>order. spec_children (the (trade_amount st (trade_key order)))
                                 (p (stock_id order)) True order ts te) orders),
            st\<lparr>trade_trend := (\<lambda>k. if k \<in> trade_key ` set orders then Some (p (fst k))
                                    else ((trade_trend st)(trade_key order \<mapsto> ?t)) k)\<rparr>)" for acc'
    using Cons.IH [of ?st acc'] Cons.prems unfolding tt by simp
  have upd: "(\<lambda>k. if k \<in> trade_key ` set orders then Some (p (fst k))
                   else ((trade_trend st)(trade_key order \<mapsto> ?t)) k)
           = (\<lambda>k. if k \<in> trade_key ` set (order # orders) then Some (p (fst k))
                   else trade_trend st k)"
    by (auto simp: fun_eq_iff trade_key_def)
  show ?case
    unfolding turn ih upd using a by simp
qed

lemma sbb_loop_even:
  assumes "trade_index st mod 2 \<noteq> 1"
    and "\<forall>order \<in> set orders. trade_key order \<in> dom (trade_trend st)"
    and "\<forall>order \<in> set orders. trade_key order \<in> dom (trade_amount st)"
  shows "sbb_loop pred st ts te orders acc
     = Inr (acc @ concat (map (\<lambda>order. spec_children (the (trade_amount st (trade_key order)))
                                 (the (trade_trend st (trade_key order))) False order ts te) orders),
            st)"
  using assms
proof (induction orders arbitrary: acc)
  case Nil
  then show ?case by simp
next
  case (Cons order orders)
  obtain a where a: "trade_amount st (trade_key order) = Some a"
    using Cons.prems(3) by auto
  obtain t where t: "trade_trend st (trade_key order) = Some t"
    using Cons.prems(2) by auto
  have pr: "(if trade_index st mod 2 = 1 then pred (stock_id order) None None
             else py_getitem (trade_trend st) (trade_key order)) = Inr t"
    using Cons.prems(1) t by (simp add: py_getitem_def)
  have turn: "sbb_loop pred st ts te (order # orders) acc
     = sbb_loop pred st ts te orders (acc @ spec_children a t False order ts te)"
    unfolding sbb_loop_turn [where pred = pred and st = st and order = order, OF pr a] using Cons.prems(1) by simp
  have ih: "sbb_loop pred st ts te orders acc'
     = Inr (acc' @ concat (map (\<lambda>order. spec_children (the (trade_amount st (trade_key order)))
                                 (the (trade_trend st (trade_key order))) False order ts te) orders),
            st)" for acc'
    using Cons.prems by (intro Cons.IH) simp_all
  show ?case
    unfolding turn ih using a t by simp
qed

lemma sbb_pred_window_ok:
  assumes "0 \<le> trade_index st" "trade_index st \<le> int (length (trade_dates st))"
  shows "\<exists>w. sbb_pred_window (base_generate_order_list st) ts = Inr w"
proof (cases "trade_index st = 0")
  case True
  then show ?thesis by (simp add: sbb_pred_window_def base_generate_order_list_def)
next
  case False
  then have "py_index (trade_dates st) (trade_index st - 1) = Inr (trade_dates st ! nat (trade_index st - 1))"
    using assms by (intro py_index_nat) auto
  then show ?thesis
    using False by (simp add: sbb_pred_window_def base_generate_order_list_def)
qed

lemma sbb_step_odd:
  assumes "trade_index st mod 2 = 0"
    and "0 \<le> trade_index st" "trade_index st \<le> int (length (trade_dates st))"
    and "\<forall>order \<in> set (trade_order_list st). pred (stock_id order) None None = Inr (p (stock_id order))"
    and "\<forall>order \<in> set (trade_order_list st). trade_key order \<in> dom (trade_amount st)"
  shows "SBBStrategy_generate_order_list pred st ts te
     = Inr (concat (map (\<lambda>order. spec_children (the (trade_amount st (trade_key order)))
                           (p (stock_id order)) True order ts te) (trade_order_list st)),
            st\<lparr>trade_index := trade_index st + 1,
               trade_trend := (\<lambda>k. if k \<in> trade_key ` set (trade_order_list st)
                                    then Some (p (fst k)) else trade_trend st k)\<rparr>)"
proof -
  let ?st = "base_generate_order_list st"
  obtain w where w: "sbb_pred_window ?st ts = Inr w"
    using sbb_pred_window_ok [OF assms(2,3)] by blast
  have odd: "trade_index ?st mod 2 = 1"
    using assms(1) by (simp add: base_generate_order_list_def) presburger
  have sel: "trade_order_list ?st = trade_order_list st" "trade_amount ?st = trade_amount st"
    "trade_trend ?st = trade_trend st"
    by (simp_all add: base_generate_order_list_def)
  have loop: "sbb_loop pred ?st ts te (trade_order_list st) []
     = Inr ([] @ concat (map (\<lambda>order. spec_children (the (trade_amount ?st (trade_key order)))
                                 (p (stock_id order)) True order ts te) (trade_order_list st)),
            ?st\<lparr>trade_trend := (\<lambda>k. if k \<in> trade_key ` set (trade_order_list st)
                                     then Some (p (fst k)) else trade_trend ?st k)\<rparr>)"
    using assms(4,5) odd by (intro sbb_loop_odd) (simp_all add: sel)
  show ?thesis
    unfolding SBBStrategy_generate_order_list_def Let_def w sel loop
    by (cases w) (simp add: base_generate_order_list_def)
qed

lemma sbb_step_even:
  assumes "trade_index st mod 2 = 1"
    and "0 \<le> trade_index st" "trade_index st \<le> int (length (trade_dates st))"
    and "\<forall>order \<in> set (trade_order_list st). trade_key order \<in> dom (trade_trend st)"
    and "\<forall>order \<in> set (trade_order_list st). trade_key order \<in> dom (trade_amount st)"
  shows "SBBStrategy_generate_order_list pred st ts te
     = Inr (concat (map (\<lambda>order. spec_children (the (trade_amount st (trade_key order)))
                           (the (trade_trend st (trade_key order))) False order ts te)
                      (trade_order_list st)),
            st\<lparr>trade_index := trade_index st + 1\<rparr>)"
proof -
  let ?st = "base_generate_order_list st"
  obtain w where w: "sbb_pred_window ?st ts = Inr w"
    using sbb_pred_window_ok [OF assms(2,3)] by blast
  have even: "trade_index ?st mod 2 \<noteq> 1"
    using assms(1) by (simp add: base_generate_order_list_def) presburger
  have sel: "trade_order_list ?st = trade_order_list st" "trade_amount ?st = trade_amount st"
    "trade_trend ?st = trade_trend st"
    by (simp_all add: base_generate_order_list_def)
  have loop: "sbb_loop pred ?st ts te (trade_order_list st) []
     = Inr ([] @ concat (map (\<lambda>order. spec_children (the (trade_amount ?st (trade_key order)))
                                 (the (trade_trend ?st (trade_key order))) False order ts te)
                            (trade_order_list st)),
            ?st)"
    using assms(4,5) even by (intro sbb_loop_even) (simp_all add: sel)
  show ?thesis
    unfolding SBBStrategy_generate_order_list_def Let_def w sel loop
    by (cases w) (simp add: base_generate_order_list_def)
qed

lemma trade_key_spec_children:
  "c \<in> set (spec_children b t phase order ts te) \<Longrightarrow> trade_key c = trade_key order"
  by (auto simp: spec_children_def split: option.splits)

lemma orders_of_spec_children:
  assumes "distinct (map trade_key orders)" "order \<in> set orders"
  shows "orders_of (trade_key order)
           (concat (map (\<lambda>order. spec_children (g order) (h order) phase order ts te) orders))
         = spec_children (g order) (h order) phase order ts te"
  using assms
proof (induction orders)
  case Nil
  then show ?case by simp
next
  case (Cons a orders)
  have own: "filter (\<lambda>c. trade_key c = trade_key x) (spec_children (g x) (h x) phase x ts te)
              = spec_children (g x) (h x) phase x ts te" for x
    by (simp add: trade_key_spec_children)
  have other: "filter (\<lambda>c. trade_key c = k) (spec_children (g x) (h x) phase x ts te) = []"
    if "trade_key x \<noteq> k" for x k
    using that by (auto simp: filter_empty_conv dest: trade_key_spec_children)
  show ?case
  proof (cases "a = order")
    case True
    have "\<forall>x \<in> set orders. trade_key x \<noteq> trade_key order"
      using Cons.prems(1) True by (auto simp: image_iff)
    then have "filter (\<lambda>c. trade_key c = trade_key order)
             (concat (map (\<lambda>order. spec_children (g order) (h order) phase order ts te) orders)) = []"
      by (auto simp: filter_empty_conv dest: trade_key_spec_children)
    then show ?thesis using True own by (simp add: orders_of_def)
  next
    case False
    then have "order \<in> set orders" "trade_key a \<noteq> trade_key order"
      using Cons.prems by auto
    then show ?thesis
      using Cons.IH Cons.prems(1) other by (simp add: orders_of_def)
  qed
qed

lemma sbb_loop_even_any_pred:
  "trade_index st mod 2 \<noteq> 1 \<Longrightarrow>
   sbb_loop pred st ts te orders acc = sbb_loop pred' st ts te orders acc"
  by (induction orders arbitrary: acc) (auto split: sum.splits)

lemma sbb_loop_even_state:
  "trade_index st mod 2 \<noteq> 1 \<Longrightarrow> sbb_loop pred st ts te orders acc = Inr (out, st') \<Longrightarrow> st' = st"
  by (induction orders arbitrary: acc) (auto split: sum.splits if_splits)

lemma sbb_step_even_any_pred:
  assumes "trade_index st mod 2 = 1"
  shows "SBBStrategy_generate_order_list pred st ts te = SBBStrategy_generate_order_list pred' st ts te"
proof -
  have "trade_index (base_generate_order_list st) mod 2 \<noteq> 1"
    using assms by (simp add: base_generate_order_list_def) presburger
  then show ?thesis
    by (simp add: SBBStrategy_generate_order_list_def Let_def sbb_loop_even_any_pred [where pred = pred and pred' = pred']
             split: sum.splits prod.splits)
qed

lemma sbb_step_even_trend:
  assumes "trade_index st mod 2 = 1" "SBBStrategy_generate_order_list pred st ts te = Inr (out, st')"
  shows "trade_trend st' = trade_trend st"
proof -
  have even: "trade_index (base_generate_order_list st) mod 2 \<noteq> 1"
    using assms(1) by (simp add: base_generate_order_list_def) presburger
  from assms(2) have "sbb_loop pred (base_generate_order_list st) ts te
      (trade_order_list (base_generate_order_list st)) [] = Inr (out, st')"
    by (simp add: SBBStrategy_generate_order_list_def Let_def split: sum.splits prod.splits)
  then have "st' = base_generate_order_list st"
    using even by (rule sbb_loop_even_state [rotated])
  then show ?thesis by (simp add: base_generate_order_list_def)
qed

section \<open>The decision table of SBBStrategy, names bound\<close>

text \<open>
  With the names bound: a strategy stands before an odd step; its parent orders have
  pairwise different keys and registered base amounts, \<open>b\<close> for the key of \<open>order\<close>, and
  the hook answers \<open>p stock\<close>. Then the odd step and the even step after it both return,
  the odd step stores the predicted trend for the key, and the child orders of the key
  are these. Trend \<open>TREND_MID\<close>: one child of amount \<open>b\<close> on the odd and on the even
  step, for either direction. Trend \<open>TREND_LONG\<close>: a BUY key gets one child of amount
  \<open>2 * b\<close> on the odd step and none on the even step, a SELL key none on the odd step
  and one of amount \<open>2 * b\<close> on the even step. Trend \<open>TREND_SHORT\<close>: the same with BUY
  and SELL exchanged. The even step is given any hook.
\<close>

lemma bound_sbb_decision_table:
  assumes "trade_index st mod 2 = 0"
    and "0 \<le> trade_index st" "trade_index st < int (length (trade_dates st))"
    and "distinct (map trade_key (trade_order_list st))" "order \<in> set (trade_order_list st)"
    and "\<forall>order \<in> set (trade_order_list st). trade_key order \<in> dom (trade_amount st)"
    and "trade_amount st (trade_key order) = Some b"
    and "\<forall>stock. pred stock None None = Inr (p stock)"
  shows "\<exists>out1 st1 out2 st2.
           SBBStrategy_generate_order_list pred st ts te = Inr (out1, st1)
         \<and> trade_trend st1 (trade_key order) = Some (p (stock_id order))
         \<and> SBBStrategy_generate_order_list pred' st1 ts' te' = Inr (out2, st2)
         \<and> (p (stock_id order) = TREND_MID \<longrightarrow>
               orders_of (trade_key order) out1 = [child order b ts te]
             \<and> orders_of (trade_key order) out2 = [child order b ts' te'])
         \<and> (p (stock_id order) = TREND_LONG \<and> direction order = BUY \<longrightarrow>
               orders_of (trade_key order) out1 = [child order (2 * b) ts te]
             \<and> orders_of (trade_key order) out2 = [])
         \<and> (p (stock_id order) = TREND_LONG \<and> direction order = SELL \<longrightarrow>
               orders_of (trade_key order) out1 = []
             \<and> orders_of (trade_key order) out2 = [child order (2 * b) ts' te'])
         \<and> (p (stock_id order) = TREND_SHORT \<and> direction order = SELL \<longrightarrow>
               orders_of (trade_key order) out1 = [child order (2 * b) ts te]
             \<and> orders_of (trade_key order) out2 = [])
         \<and> (p (stock_id order) = TREND_SHORT \<and> direction order = BUY \<longrightarrow>
               orders_of (trade_key order) out1 = []
             \<and> orders_of (trade_key order) out2 = [child order (2 * b) ts' te'])"
proof -
  let ?orders = "trade_order_list st"
  let ?T = "\<lambda>k. if k \<in> trade_key ` set ?orders then Some (p (fst k)) else trade_trend st k"
  let ?st1 = "st\<lparr>trade_index := trade_index st + 1, trade_trend := ?T\<rparr>"
  let ?out1 = "concat (map (\<lambda>order. spec_children (the (trade_amount st (trade_key order)))
                           (p (stock_id order)) True order ts te) ?orders)"
  let ?out2 = "concat (map (\<lambda>order. spec_children (the (trade_amount ?st1 (trade_key order)))
                           (the (trade_trend ?st1 (trade_key order))) False order ts' te')
                      (trade_order_list ?st1))"
  have one: "SBBStrategy_generate_order_list pred st ts te = Inr (?out1, ?st1)"
    using assms(1,2,3,6,8) by (intro sbb_step_odd) simp_all
  have two: "SBBStrategy_generate_order_list pred' ?st1 ts' te'
               = Inr (?out2, ?st1\<lparr>trade_index := trade_index ?st1 + 1\<rparr>)"
  proof (rule sbb_step_even)
    show "trade_index ?st1 mod 2 = 1"
      using assms(1) by simp presburger
    show "0 \<le> trade_index ?st1" "trade_index ?st1 \<le> int (length (trade_dates ?st1))"
      using assms(2,3) by simp_all
    show "\<forall>order \<in> set (trade_order_list ?st1). trade_key order \<in> dom (trade_trend ?st1)"
      by (simp add: dom_def)
    show "\<forall>order \<in> set (trade_order_list ?st1). trade_key order \<in> dom (trade_amount ?st1)"
      using assms(6) by simp
  qed
  have stored: "trade_trend ?st1 (trade_key order) = Some (p (stock_id order))"
    using assms(5) by (simp add: trade_key_def)
  have o1: "orders_of (trade_key order) ?out1 = spec_children b (p (stock_id order)) True order ts te"
    using orders_of_spec_children [OF assms(4,5), of "\<lambda>order. the (trade_amount st (trade_key order))"
            "\<lambda>order. p (stock_id order)" True ts te] assms(7)
    by simp
  have o2: "orders_of (trade_key order) ?out2 = spec_children b (p (stock_id order)) False order ts' te'"
    using orders_of_spec_children [OF assms(4,5), of "\<lambda>order. the (trade_amount ?st1 (trade_key order))"
            "\<lambda>order. the (trade_trend ?st1 (trade_key order))" False ts' te'] assms(7) stored
    by simp
  have rows:
    "p (stock_id order) = TREND_MID \<longrightarrow>
       orders_of (trade_key order) ?out1 = [child order b ts te]
     \<and> orders_of (trade_key order) ?out2 = [child order b ts' te']"
    "p (stock_id order) = TREND_LONG \<and> direction order = BUY \<longrightarrow>
       orders_of (trade_key order) ?out1 = [child order (2 * b) ts te]
     \<and> orders_of (trade_key order) ?out2 = []"
    "p (stock_id order) = TREND_LONG \<and> direction order = SELL \<longrightarrow>
       orders_of (trade_key order) ?out1 = []
     \<and> orders_of (trade_key order) ?out2 = [child order (2 * b) ts' te']"
    "p (stock_id order) = TREND_SHORT \<and> direction order = SELL \<longrightarrow>
       orders_of (trade_key order) ?out1 = [child order (2 * b) ts te]
     \<and> orders_of (trade_key order) ?out2 = []"
    "p (stock_id order) = TREND_SHORT \<and> direction order = BUY \<longrightarrow>
       orders_of (trade_key order) ?out1 = []
     \<and> orders_of (trade_key order) ?out2 = [child order (2 * b) ts' te']"
    unfolding o1 o2 by (simp_all add: spec_children_def)
  show ?thesis
    using one two stored rows by blast
qed

section \<open>Trend state of SBBStrategy, names bound\<close>

text \<open>
  With the names bound: a strategy stands before an odd step, with registered base
  amounts, and the hook answers \<open>p stock\<close>. The odd step returns and leaves in
  \<open>trade_trend\<close>, for the key of every parent order, the trend predicted for its stock,
  and every other entry as it was. The even step after it returns the same orders and
  the same strategy whatever hook it is given, so it calls none; its orders are the rows
  of the decision table for the trends stored by the odd step, and it leaves
  \<open>trade_trend\<close> as the odd step left it. More generally every even step, from any
  strategy \<open>se\<close>, does the same for every two hooks and, when it returns, has not changed
  \<open>trade_trend\<close>.
\<close>

lemma bound_sbb_trend_persistence:
  assumes "trade_index st mod 2 = 0"
    and "0 \<le> trade_index st" "trade_index st < int (length (trade_dates st))"
    and "\<forall>order \<in> set (trade_order_list st). trade_key order \<in> dom (trade_amount st)"
    and "\<forall>stock. pred stock None None = Inr (p stock)"
  shows "(\<exists>out1 st1 out2 st2.
            SBBStrategy_generate_order_list pred st ts te = Inr (out1, st1)
          \<and> (\<forall>order \<in> set (trade_order_list st).
                trade_trend st1 (trade_key order) = Some (p (stock_id order)))
          \<and> (\<forall>k. k \<notin> trade_key ` set (trade_order_list st) \<longrightarrow> trade_trend st1 k = trade_trend st k)
          \<and> (\<forall>pred'. SBBStrategy_generate_order_list pred' st1 ts' te' = Inr (out2, st2))
          \<and> out2 = concat (map (\<lambda>order. spec_children (the (trade_amount st (trade_key order)))
                                   (p (stock_id order)) False order ts' te') (trade_order_list st))
          \<and> trade_trend st2 = trade_trend st1)
       \<and> (trade_index se mod 2 = 1 \<longrightarrow>
            SBBStrategy_generate_order_list pred se ts' te' = SBBStrategy_generate_order_list pred'' se ts' te'
          \<and> (\<forall>out se'. SBBStrategy_generate_order_list pred se ts' te' = Inr (out, se')
                \<longrightarrow> trade_trend se' = trade_trend se))"
proof -
  let ?orders = "trade_order_list st"
  let ?T = "\<lambda>k. if k \<in> trade_key ` set ?orders then Some (p (fst k)) else trade_trend st k"
  let ?st1 = "st\<lparr>trade_index := trade_index st + 1, trade_trend := ?T\<rparr>"
  let ?out1 = "concat (map (\<lambda>order. spec_children (the (trade_amount st (trade_key order)))
                           (p (stock_id order)) True order ts te) ?orders)"
  let ?out2 = "concat (map (\<lambda>order. spec_children (the (trade_amount st (trade_key order)))
                           (p (stock_id order)) False order ts' te') ?orders)"
  let ?st2 = "?st1\<lparr>trade_index := trade_index ?st1 + 1\<rparr>"
  have one: "SBBStrategy_generate_order_list pred st ts te = Inr (?out1, ?st1)"
    using assms by (intro sbb_step_odd) simp_all
  have stored: "\<forall>order \<in> set ?orders. trade_trend ?st1 (trade_key order) = Some (p (stock_id order))"
    by (simp add: trade_key_def)
  have others: "\<forall>k. k \<notin> trade_key ` set ?orders \<longrightarrow> trade_trend ?st1 k = trade_trend st k"
    by simp
  have "SBBStrategy_generate_order_list pred' ?st1 ts' te'
               = Inr (concat (map (\<lambda>order. spec_children (the (trade_amount ?st1 (trade_key order)))
                           (the (trade_trend ?st1 (trade_key order))) False order ts' te')
                      (trade_order_list ?st1)), ?st2)" for pred'
  proof (rule sbb_step_even)
    show "trade_index ?st1 mod 2 = 1"
      using assms(1) by simp presburger
    show "0 \<le> trade_index ?st1" "trade_index ?st1 \<le> int (length (trade_dates ?st1))"
      using assms(2,3) by simp_all
    show "\<forall>order \<in> set (trade_order_list ?st1). trade_key order \<in> dom (trade_trend ?st1)"
      by (simp add: dom_def)
    show "\<forall>order \<in> set (trade_order_list ?st1). trade_key order \<in> dom (trade_amount ?st1)"
      using assms(4) by simp
  qed
  moreover have "concat (map (\<lambda>order. spec_children (the (trade_amount ?st1 (trade_key order)))
                           (the (trade_trend ?st1 (trade_key order))) False order ts' te')
                      (trade_order_list ?st1)) = ?out2"
    using stored by (auto intro!: arg_cong [where f = concat])
  ultimately have two: "\<forall>pred'. SBBStrategy_generate_order_list pred' ?st1 ts' te' = Inr (?out2, ?st2)"
    by simp
  have kept: "trade_trend ?st2 = trade_trend ?st1"
    by simp
  have pair: "\<exists>out1 st1 out2 st2.
            SBBStrategy_generate_order_list pred st ts te = Inr (out1, st1)
          \<and> (\<forall>order \<in> set (trade_order_list st).
                trade_trend st1 (trade_key order) = Some (p (stock_id order)))
          \<and> (\<forall>k. k \<notin> trade_key ` set (trade_order_list st) \<longrightarrow> trade_trend st1 k = trade_trend st k)
          \<and> (\<forall>pred'. SBBStrategy_generate_order_list pred' st1 ts' te' = Inr (out2, st2))
          \<and> out2 = ?out2
          \<and> trade_trend st2 = trade_trend st1"
    using one stored others two kept by blast
  have even: "trade_index se mod 2 = 1 \<longrightarrow>
            SBBStrategy_generate_order_list pred se ts' te' = SBBStrategy_generate_order_list pred'' se ts' te'
          \<and> (\<forall>out se'. SBBStrategy_generate_order_list pred se ts' te' = Inr (out, se')
                \<longrightarrow> trade_trend se' = trade_trend se)"
    using sbb_step_even_any_pred [of se pred ts' te' pred''] sbb_step_even_trend [of se pred ts' te']
    by blast
  show ?thesis
    using pair even by (rule conjI)
qed

lemma spec_children_mid: "spec_children b TREND_MID phase order ts te = [child order b ts te]"
  by (simp add: spec_children_def)

lemma sbb_step_mid:
  assumes "0 \<le> trade_index st" "trade_index st \<le> int (length (trade_dates st))"
    and "\<forall>stock. pred stock None None = Inr TREND_MID"
    and "\<forall>order \<in> set (trade_order_list st). trade_trend st (trade_key order) = Some TREND_MID"
    and "\<forall>order \<in> set (trade_order_list st). trade_key order \<in> dom (trade_amount st)"
  shows "SBBStrategy_generate_order_list pred st ts te
     = Inr (map (\<lambda>order. child order (the (trade_amount st (trade_key order))) ts te)
              (trade_order_list st),
            st\<lparr>trade_index := trade_index st + 1\<rparr>)"
proof (cases "trade_index st mod 2 = 0")
  case True
  let ?T = "\<lambda>k. if k \<in> trade_key ` set (trade_order_list st) then Some TREND_MID
                 else trade_trend st k"
  have step: "SBBStrategy_generate_order_list pred st ts te
     = Inr (concat (map (\<lambda>order. spec_children (the (trade_amount st (trade_key order)))
                           TREND_MID True order ts te) (trade_order_list st)),
            st\<lparr>trade_index := trade_index st + 1, trade_trend := ?T\<rparr>)"
    using True assms(1,2,3,5)
    by (intro sbb_step_odd [where p = "\<lambda>stock. TREND_MID"]) simp_all
  have "?T = trade_trend st"
    using assms(4) by (auto simp: fun_eq_iff)
  then have same: "st\<lparr>trade_index := trade_index st + 1, trade_trend := ?T\<rparr>
                     = st\<lparr>trade_index := trade_index st + 1\<rparr>"
    by simp
  show ?thesis
    unfolding step same by (simp add: spec_children_mid)
next
  case False
  then have odd: "trade_index st mod 2 = 1" by presburger
  have dom: "\<forall>order \<in> set (trade_order_list st). trade_key order \<in> dom (trade_trend st)"
    using assms(4) by auto
  have step: "SBBStrategy_generate_order_list pred st ts te
     = Inr (concat (map (\<lambda>order. spec_children (the (trade_amount st (trade_key order)))
                           (the (trade_trend st (trade_key order))) False order ts te)
                      (trade_order_list st)),
            st\<lparr>trade_index := trade_index st + 1\<rparr>)"
    using odd assms(1,2,5) dom by (intro sbb_step_even) simp_all
  have meq: "map (\<lambda>order. spec_children (the (trade_amount st (trade_key order)))
                (the (trade_trend st (trade_key order))) False order ts te) (trade_order_list st)
        = map (\<lambda>order. [child order (the (trade_amount st (trade_key order))) ts te])
            (trade_order_list st)"
    using assms(4) by (intro map_cong) (simp_all add: spec_children_mid)
  show ?thesis
    unfolding step meq by simp
qed

lemma sbb_run_mid:
  assumes "0 \<le> trade_index st" "trade_index st + int n < int (length (trade_dates st))"
    and "\<forall>stock. pred stock None None = Inr TREND_MID"
    and "\<forall>order \<in> set (trade_order_list st). trade_trend st (trade_key order) = Some TREND_MID"
    and "\<forall>order \<in> set (trade_order_list st). trade_key order \<in> dom (trade_amount st)"
  shows "\<exists>outs. sbb_run pred st n = Inr (outs, st\<lparr>trade_index := trade_index st + int n\<rparr>)
           \<and> length outs = n
           \<and> (\<forall>j<n. outs ! j
                 = map (\<lambda>order. child order (the (trade_amount st (trade_key order)))
                          (trade_dates st ! (nat (trade_index st) + j))
                          (trade_dates st ! Suc (nat (trade_index st) + j)))
                     (trade_order_list st))"
  using assms
proof (induction n arbitrary: st)
  case 0
  then show ?case by simp
next
  case (Suc n)
  let ?st' = "st\<lparr>trade_index := trade_index st + 1\<rparr>"
  let ?ts = "trade_dates st ! nat (trade_index st)"
  let ?te = "trade_dates st ! Suc (nat (trade_index st))"
  have a: "py_index (trade_dates st) (trade_index st) = Inr ?ts"
    using Suc.prems(1,2) by (simp add: py_index_nat)
  have b: "py_index (trade_dates st) (trade_index st + 1) = Inr ?te"
    using Suc.prems(1,2) by (simp add: py_index_nat nat_add_distrib)
  have step: "SBBStrategy_generate_order_list pred st ?ts ?te
     = Inr (map (\<lambda>order. child order (the (trade_amount st (trade_key order))) ?ts ?te)
              (trade_order_list st), ?st')"
    using Suc.prems by (intro sbb_step_mid) auto
  have "\<exists>outs. sbb_run pred ?st' n = Inr (outs, ?st'\<lparr>trade_index := trade_index ?st' + int n\<rparr>)
           \<and> length outs = n
           \<and> (\<forall>j<n. outs ! j
                 = map (\<lambda>order. child order (the (trade_amount ?st' (trade_key order)))
                          (trade_dates ?st' ! (nat (trade_index ?st') + j))
                          (trade_dates ?st' ! Suc (nat (trade_index ?st') + j)))
                     (trade_order_list ?st'))"
    using Suc.prems by (intro Suc.IH) auto
  then obtain outs where run: "sbb_run pred ?st' n = Inr (outs, st\<lparr>trade_index := trade_index st + 1 + int n\<rparr>)"
    and len: "length outs = n"
    and nth: "\<forall>j<n. outs ! j
                 = map (\<lambda>order. child order (the (trade_amount st (trade_key order)))
                          (trade_dates st ! (nat (trade_index st + 1) + j))
                          (trade_dates st ! Suc (nat (trade_index st + 1) + j)))
                     (trade_order_list st)"
    by auto
  have idx: "nat (trade_index st + 1) = Suc (nat (trade_index st))"
    using Suc.prems(1) by simp
  show ?case
    unfolding sbb_run.simps a b sum.case step
    using run len nth idx
    by (auto simp: nth_Cons' add.commute add.left_commute)
qed

section \<open>SBBStrategy under a hook that always answers MID, names bound\<close>

text \<open>
  With the names bound: the same parent orders, in any number and with any keys, and the
  same calendar of \<open>N > 0\<close> steps are registered for both strategies, and the hook
  answers \<open>TREND_MID\<close> to every call. Then for every \<open>n \<le> N\<close> the first \<open>n\<close> steps of
  both strategies return, with the same list of child orders at every step. The caller
  gives \<^verbatim>\<open>SBBStrategy.generate_order_list\<close> the calendar bounds of the step, which are the
  times that \<^verbatim>\<open>TWAPStrategy.generate_order_list\<close> reads from the calendar.
\<close>

lemma bound_sbb_mid_is_twap:
  assumes "0 < N" "int (length dates) = N + 1" "n \<le> nat N"
    and "\<forall>stock. pred stock None None = Inr TREND_MID"
  shows "\<exists>tw sb outs tw' sb'.
           twap_init_body dates N orders = Inr tw
         \<and> sbb_init_body dates N orders = Inr sb
         \<and> twap_run tw n = Inr (outs, tw')
         \<and> sbb_run pred sb n = Inr (outs, sb')
         \<and> length outs = n"
proof -
  let ?am = "map_of (rev (map (\<lambda>order. (trade_key order, amount order div N)) orders))"
  let ?tw = "\<lparr>trade_dates = dates, trade_len = N, trade_index = 0, trade_order_list = orders,
              trade_amount = ?am, trade_trend = Map.empty\<rparr>"
  let ?sb = "\<lparr>trade_dates = dates, trade_len = N, trade_index = 0, trade_order_list = orders,
              trade_amount = ?am,
              trade_trend = (\<lambda>k. if k \<in> trade_key ` set orders then Some TREND_MID else None)\<rparr>"
  let ?slice = "\<lambda>j. map (\<lambda>order. child order (the (?am (trade_key order))) (dates ! j) (dates ! Suc j))
                        orders"
  have tw: "twap_init_body dates N orders = Inr ?tw"
    using assms(1) by (simp add: twap_init_body_eq)
  have sb: "sbb_init_body dates N orders = Inr ?sb"
    using assms(1) by (simp add: sbb_init_body_eq)
  have "\<exists>outs. twap_run ?tw n = Inr (outs, ?tw\<lparr>trade_index := trade_index ?tw + int n\<rparr>)
           \<and> length outs = n
           \<and> (\<forall>j<n. outs ! j
                 = map (\<lambda>order. child order (the (trade_amount ?tw (trade_key order)))
                          (trade_dates ?tw ! (nat (trade_index ?tw) + j))
                          (trade_dates ?tw ! Suc (nat (trade_index ?tw) + j)))
                     (trade_order_list ?tw))"
    using assms(1,2,3) by (intro twap_run_eq) (simp_all add: registered_dom)
  then obtain outs tw' where t: "twap_run ?tw n = Inr (outs, tw')" "length outs = n"
    "\<forall>j<n. outs ! j = ?slice j"
    by auto
  have "\<exists>outs. sbb_run pred ?sb n = Inr (outs, ?sb\<lparr>trade_index := trade_index ?sb + int n\<rparr>)
           \<and> length outs = n
           \<and> (\<forall>j<n. outs ! j
                 = map (\<lambda>order. child order (the (trade_amount ?sb (trade_key order)))
                          (trade_dates ?sb ! (nat (trade_index ?sb) + j))
                          (trade_dates ?sb ! Suc (nat (trade_index ?sb) + j)))
                     (trade_order_list ?sb))"
    using assms by (intro sbb_run_mid) (simp_all add: registered_dom)
  then obtain outs' sb' where s: "sbb_run pred ?sb n = Inr (outs', sb')" "length outs' = n"
    "\<forall>j<n. outs' ! j = ?slice j"
    by auto
  have "outs' = outs"
    using t(2,3) s(2,3) by (intro nth_equalityI) simp_all
  then show ?thesis
    using tw sb t s by blast
qed

text \<open>The two runs on the example, step by step.\<close>

lemma example_twap_run:
  "twap_run example_twap 3
     = Inr ([[child example_buy 33 0 60, child example_sell 16 0 60],
             [child example_buy 33 60 120, child example_sell 16 60 120],
             [child example_buy 33 120 180, child example_sell 16 120 180]],
            example_twap\<lparr>trade_index := 3\<rparr>)"
  by (simp add: eval_nat_numeral TWAPStrategy_generate_order_list_def base_generate_order_list_def
        py_index_def py_getitem_def trade_key_def example_defs)

lemma example_sbb_run:
  "sbb_run always_mid example_sbb 3
     = Inr ([[child example_buy 33 0 60, child example_sell 16 0 60],
             [child example_buy 33 60 120, child example_sell 16 60 120],
             [child example_buy 33 120 180, child example_sell 16 120 180]],
            example_sbb\<lparr>trade_index := 3\<rparr>)"
  by (simp add: eval_nat_numeral SBBStrategy_generate_order_list_def base_generate_order_list_def
        sbb_pred_window_def sbb_append_def always_mid_def
        py_index_def py_getitem_def trade_key_def example_defs)

section \<open>The child orders of a step\<close>






section \<open>The window of the trend hook\<close>

text \<open>
  The loop calls the hook with the stock alone, so a step depends on the hook only
  through its answers to calls without a window.
\<close>

lemma sbb_loop_ignores_window:
  "\<forall>stock. pred stock None None = pred' stock None None \<Longrightarrow>
   sbb_loop pred st ts te orders acc = sbb_loop pred' st ts te orders acc"
  by (induction orders arbitrary: st acc) (simp_all split: sum.splits)

lemma sbb_step_ignores_window:
  "\<forall>stock. pred stock None None = pred' stock None None \<Longrightarrow>
   SBBStrategy_generate_order_list pred st ts te = SBBStrategy_generate_order_list pred' st ts te"
  by (simp add: SBBStrategy_generate_order_list_def Let_def sbb_loop_ignores_window [of pred pred']
        split: sum.splits)

text \<open>
  C3. On step 3 of the example the window of lines 78--81 is computed as the claim
  says, from 60 (the end of step 1) to 119 (one second before the start of step 3),
  and \<open>window_pred\<close> answers \<open>TREND_LONG\<close> on that window. The step nevertheless emits the
  base amount for both keys and leaves both stored trends at \<open>TREND_MID\<close>: the hook was
  asked without the window.
\<close>

theorem sbb_hook_called_without_window:
  "sbb_pred_window (base_generate_order_list (example_sbb\<lparr>trade_index := 2\<rparr>)) 120
     = Inr (Some 60, Some 119)
   \<and> window_pred ''SH600000'' (Some 60) (Some 119) = Inr TREND_LONG
   \<and> SBBStrategy_generate_order_list window_pred (example_sbb\<lparr>trade_index := 2\<rparr>) 120 180
     = Inr ([child example_buy 33 120 180, child example_sell 16 120 180],
            example_sbb\<lparr>trade_index := 3\<rparr>)"
  by (simp add: SBBStrategy_generate_order_list_def base_generate_order_list_def
        sbb_pred_window_def sbb_append_def window_pred_def
        py_index_def py_getitem_def trade_key_def example_defs)

section \<open>The trend hook of SBBEMAStrategy\<close>

text \<open>
  C8. Whatever the stock and the window, when the sampled frame is empty the hook
  returns \<open>TREND_MID\<close>, as a value and not as an error.
\<close>

theorem ema_empty_signal_is_mid:
  assumes "frame_empty (sample_feature signal stock pred_start_time pred_end_time)"
  shows "SBBEMAStrategy_pred_price_trend sample_feature signal stock pred_start_time pred_end_time
         = Inr TREND_MID"
  using assms by (simp add: SBBEMAStrategy_pred_price_trend_def)

theorem ema_empty_signal_is_mid_witness:
  "frame_empty ((\<lambda>signal stock ps pe. []) () ''SH600000'' (Some 60) (Some 119))
   \<and> SBBEMAStrategy_pred_price_trend (\<lambda>signal stock ps pe. []) () ''SH600000'' (Some 60) (Some 119)
     = Inr TREND_MID"
  using ema_empty_signal_is_mid [of "\<lambda>signal stock ps pe. []" "()" "''SH600000''" "Some 60" "Some 119"]
  by (simp add: frame_empty_def)

text \<open>
  C9. On a frame that is not empty the hook never fails and decides by the first cell:
  \<open>TREND_LONG\<close> exactly when the cell is strictly positive, \<open>TREND_SHORT\<close> for every
  other cell, and so for a cell that is exactly zero.
\<close>

theorem ema_zero_is_short:
  assumes "sample_feature signal stock pred_start_time pred_end_time = (c # cs) # rows"
  shows "SBBEMAStrategy_pred_price_trend sample_feature signal stock pred_start_time pred_end_time
           = Inr (if cell_gt0 c then TREND_LONG else TREND_SHORT)
         \<and> (c = Num 0 \<longrightarrow>
              SBBEMAStrategy_pred_price_trend sample_feature signal stock pred_start_time pred_end_time
                = Inr TREND_SHORT)
         \<and> (SBBEMAStrategy_pred_price_trend sample_feature signal stock pred_start_time pred_end_time
              = Inr TREND_LONG \<longleftrightarrow> (\<exists>x. c = Num x \<and> 0 < x))"
proof -
  have "(\<exists>x. c = Num x \<and> 0 < x) = cell_gt0 c"
    by (cases c) simp_all
  then show ?thesis
    using assms by (auto simp: SBBEMAStrategy_pred_price_trend_def frame_empty_def iloc00_def)
qed

theorem ema_zero_is_short_witness:
  "(\<lambda>signal stock ps pe. [[Num 0]]) () ''SH600000'' None None = (Num 0 # []) # []
   \<and> SBBEMAStrategy_pred_price_trend (\<lambda>signal stock ps pe. [[Num 0]]) () ''SH600000'' None None
     = Inr TREND_SHORT"
  using ema_zero_is_short [of "\<lambda>signal stock ps pe. [[Num 0]]" "()" "''SH600000''" None None
                              "Num 0" "[]" "[]"]
  by simp

end
